theory Spec2Isabelle
  imports Main
begin

section \<open>ConvF Music: a shallow embedding of \<open>convert.py\<close>\<close>

text \<open>
  The script converts audio files by handing them to the external program \<open>ffmpeg\<close>.
  Everything the script decides by itself is embedded below as executable HOL functions:
  the codec table, the resolution of the target format and of the output path, the
  assembly of the command line, the classification of the tool's result, the batch loop
  with its counters, and the dispatch in \<open>main\<close>.

  Scope of the model.
  \<^item> A Python \<open>str\<close> is a \<open>string\<close>; a \<open>char\<close> stands for a code point below 256.
    Code points from 256 on are outside the model.
  \<^item> The file system and the external tool are parameters (an \<open>env\<close>): what they
    answer may depend on the commands the script has run so far.
  \<^item> Printing is a log of events. Colours, the banner and the boxes around the summary
    are events without text; every message that carries data keeps its text.
  \<^item> The functions of \<open>os.path\<close> follow their POSIX implementation.
  \<^item> The two percentages are computed by the script in floating point; the float
    computation \<open>int((a / b) * 100)\<close> is a parameter of the model, and the
    \<open>ZeroDivisionError\<close> of \<open>a / b\<close> at \<open>b = 0\<close> is a branch of the model.
  \<^item> \<open>KeyboardInterrupt\<close> arrives asynchronously and is not modelled, and neither is
    the work of \<open>argparse\<close>: \<open>main\<close> starts from the parsed arguments.
\<close>

subsection \<open>Strings\<close>

text \<open>\<open>str.lower\<close> on code points below 256: the letters A to Z, and the Latin-1 capital
  letters U+00C0 to U+00DE without the multiplication sign U+00D7, move up by 32. In both
  ranges bit 5 is clear, so adding 32 sets it.\<close>

definition lower_char :: "char \<Rightarrow> char" where
  "lower_char c =
     (let n = (of_char c :: nat)
      in if (65 \<le> n \<and> n \<le> 90) \<or> (192 \<le> n \<and> n \<le> 222 \<and> n \<noteq> 215)
         then (case c of Char b0 b1 b2 b3 b4 b5 b6 b7 \<Rightarrow> Char b0 b1 b2 b3 b4 True b6 b7)
         else c)"

definition lower :: "string \<Rightarrow> string" where
  "lower s = map lower_char s"

text \<open>\<open>s.endswith(suf)\<close>.\<close>

definition endswith :: "string \<Rightarrow> string \<Rightarrow> bool" where
  "endswith s suf = (length suf \<le> length s \<and> drop (length s - length suf) s = suf)"

text \<open>\<open>s.lstrip('.')\<close>.\<close>

definition lstrip :: "char \<Rightarrow> string \<Rightarrow> string" where
  "lstrip c s = dropWhile (\<lambda>d. d = c) s"

text \<open>\<open>s.rfind(c)\<close> for a single character: the last index of \<open>c\<close>, or \<open>-1\<close>.\<close>

definition rfind :: "string \<Rightarrow> char \<Rightarrow> int" where
  "rfind s c =
     (case filter (\<lambda>i. s ! i = c) (rev [0..<length s]) of
        [] \<Rightarrow> - 1
      | i # _ \<Rightarrow> int i)"

text \<open>\<open>str(n)\<close> for an integer: decimal digits, with a minus sign below zero.\<close>

fun str_nat :: "nat \<Rightarrow> string" where
  "str_nat n =
     (if n < 10 then [''0123456789'' ! n]
      else str_nat (n div 10) @ [''0123456789'' ! (n mod 10)])"

declare str_nat.simps [simp del]

definition str :: "int \<Rightarrow> string" where
  "str i = (if i < 0 then CHR ''-'' # str_nat (nat (- i)) else str_nat (nat i))"

text \<open>\<open>s.splitlines()\<close>: the line boundaries among the code points below 256 are
  \<open>\n\<close>, \<open>\r\<close>, \<open>\r\n\<close>, \<open>\v\<close>, \<open>\f\<close>, \<open>\x1c\<close>, \<open>\x1d\<close>, \<open>\x1e\<close> and \<open>\x85\<close>.
  The first argument is the line read so far.\<close>

definition is_linebreak :: "char \<Rightarrow> bool" where
  "is_linebreak c = ((of_char c :: nat) \<in> {10, 11, 12, 13, 28, 29, 30, 133})"

fun splitlines_from :: "string \<Rightarrow> string \<Rightarrow> string list" where
  "splitlines_from cur [] = (if cur = [] then [] else [cur])"
| "splitlines_from cur [c] =
     (if is_linebreak c then [cur] else [cur @ [c]])"
| "splitlines_from cur (c # d # cs) =
     (if c = CHR 0x0D \<and> d = CHR 0x0A then cur # splitlines_from [] cs
      else if is_linebreak c then cur # splitlines_from [] (d # cs)
      else splitlines_from (cur @ [c]) (d # cs))"

definition splitlines :: "string \<Rightarrow> string list" where
  "splitlines s = splitlines_from [] s"

text \<open>\<open>xs[-5:]\<close>: the last five elements, all of them when there are fewer.\<close>

definition last_five :: "'a list \<Rightarrow> 'a list" where
  "last_five xs = drop (length xs - 5) xs"

text \<open>The apostrophes that the messages put around a path.\<close>

definition quoted :: "string \<Rightarrow> string" where
  "quoted s = CHR 0x27 # s @ [CHR 0x27]"

subsection \<open>\<open>os.path\<close>\<close>

text \<open>\<open>os.path.splitext\<close>: the extension starts at the last dot of the last path
  component, unless that component has only dots before it.\<close>

definition splitext :: "string \<Rightarrow> string \<times> string" where
  "splitext p =
     (let sepIndex = rfind p CHR ''/'';
          dotIndex = rfind p CHR ''.''
      in if dotIndex > sepIndex \<and>
            list_ex (\<lambda>c. c \<noteq> CHR ''.'')
              (take (nat (dotIndex - (sepIndex + 1))) (drop (nat (sepIndex + 1)) p))
         then (take (nat dotIndex) p, drop (nat dotIndex) p)
         else (p, []))"

text \<open>\<open>os.path.basename\<close>.\<close>

definition basename :: "string \<Rightarrow> string" where
  "basename p = drop (nat (rfind p CHR ''/'' + 1)) p"

text \<open>\<open>os.path.join\<close> of two components.\<close>

definition join :: "string \<Rightarrow> string \<Rightarrow> string" where
  "join a b =
     (if b \<noteq> [] \<and> hd b = CHR ''/'' then b
      else if a = [] \<or> last a = CHR ''/'' then a @ b
      else a @ ''/'' @ b)"

subsection \<open>The codec table\<close>

definition format_codec_map :: "(string \<times> string list) list" where
  "format_codec_map =
     [(''.mp3'', [''-c:a'', ''libmp3lame'', ''-q:a'', ''4'']),
      (''.ogg'', [''-c:a'', ''libvorbis'', ''-q:a'', ''5'']),
      (''.opus'', [''-c:a'', ''libopus'', ''-b:a'', ''128k'']),
      (''.m4a'', [''-c:a'', ''aac'', ''-b:a'', ''192k'']),
      (''.flac'', [''-c:a'', ''flac'']),
      (''.wav'', [''-c:a'', ''pcm_s16le'']),
      (''.aac'', [''-c:a'', ''aac'', ''-b:a'', ''192k'']),
      (''.wma'', [''-c:a'', ''wmav2'', ''-b:a'', ''192k'']),
      (''.alac'', [''-c:a'', ''alac''])]"

definition get_output_codec :: "string \<Rightarrow> string list" where
  "get_output_codec output_format =
     (case map_of format_codec_map (lower output_format) of
        Some codec \<Rightarrow> codec
      | None \<Rightarrow> [''-c:a'', ''copy''])"

subsection \<open>The outside world, and what the script prints\<close>

datatype exn_kind = FileNotFoundError | ZeroDivisionError | OtherException

text \<open>An exception: its class and its message \<open>str(e)\<close>.\<close>

datatype py_exn = Exn exn_kind string

definition str_exn :: "py_exn \<Rightarrow> string" where
  "str_exn e = (case e of Exn _ m \<Rightarrow> m)"

text \<open>What \<open>subprocess.run(cmd, capture_output=True, text=True)\<close> gives: a completed
  process with its return code, standard output and standard error, or an exception.\<close>

datatype run_result = Completed int string string | Raised py_exn

text \<open>The history of a run is the list of the commands handed to \<open>subprocess.run\<close> so far.
  The answers of the file system and of the tool are functions of that history.
  \<open>float_percent a b\<close> is the float computation \<open>int((a / b) * 100)\<close> for \<open>b \<noteq> 0\<close>.\<close>

record env =
  isfile :: "string list list \<Rightarrow> string \<Rightarrow> bool"
  isdir :: "string list list \<Rightarrow> string \<Rightarrow> bool"
  listdir :: "string list list \<Rightarrow> string \<Rightarrow> string list"
  subprocess_run :: "string list list \<Rightarrow> string list \<Rightarrow> run_result"
  float_percent :: "int \<Rightarrow> int \<Rightarrow> int"

text \<open>The lines printed. \<open>PrintInfo\<close>, \<open>PrintWarn\<close>, \<open>PrintError\<close> and \<open>PrintSuccess\<close> are
  the four helpers of the script with their message; \<open>Print\<close> is a plain \<open>print\<close>.
  \<open>Converting a b\<close> is \<open>print_info\<close> of the message with the two base names around an
  arrow. \<open>Processing\<close> is the progress indicator and \<open>ClearLine\<close> the line that erases it.
  \<open>Summary total converted skipped failed rate\<close> is the boxed summary of a batch.\<close>

datatype event =
    PrintInfo string
  | PrintWarn string
  | PrintError string
  | PrintSuccess string
  | Print string
  | Converting string string
  | Processing
  | ClearLine
  | Banner
  | Help
  | FormatsHeader
  | FormatsNote
  | Summary int int int int int

record state =
  out :: "event list"
  spawned :: "string list list"

definition emit :: "event \<Rightarrow> state \<Rightarrow> state" where
  "emit e st = st\<lparr>out := out st @ [e]\<rparr>"

definition emits :: "event list \<Rightarrow> state \<Rightarrow> state" where
  "emits es st = st\<lparr>out := out st @ es\<rparr>"

text \<open>\<open>subprocess.run\<close>: the command joins the history, whatever the outcome.\<close>

definition run :: "env \<Rightarrow> string list \<Rightarrow> state \<Rightarrow> run_result \<times> state" where
  "run E cmd st = (subprocess_run E (spawned st) cmd, st\<lparr>spawned := spawned st @ [cmd]\<rparr>)"

subsection \<open>\<open>convert_file\<close>\<close>

text \<open>Python's truth value of an optional string: \<open>None\<close> and the empty string are false.\<close>

definition truthy :: "string option \<Rightarrow> bool" where
  "truthy x = (case x of None \<Rightarrow> False | Some s \<Rightarrow> s \<noteq> [])"

text \<open>The block "Determine output format based on parameters". \<open>None\<close> is the early
  return after "No output format specified in output filename."\<close>

definition resolve_output_format :: "string option \<Rightarrow> string option \<Rightarrow> string option" where
  "resolve_output_format format output_file =
     (if truthy format then Some (''.'' @ lower (the format))
      else if truthy output_file then
        (let output_format = lower (snd (splitext (the output_file)))
         in if output_format = [] then None else Some output_format)
      else Some ''.ogg'')"

text \<open>\<open>xs.index(x)\<close> when \<open>x in xs\<close>, and \<open>None\<close> when it is not.\<close>

fun index_of :: "'a list \<Rightarrow> 'a \<Rightarrow> nat option" where
  "index_of [] x = None"
| "index_of (y # ys) x = (if y = x then Some 0 else map_option Suc (index_of ys x))"

text \<open>The block "Add quality parameter if applicable".\<close>

definition with_quality :: "string list \<Rightarrow> int option \<Rightarrow> string list" where
  "with_quality codec_settings quality =
     (case (index_of codec_settings ''-q:a'', quality) of
        (Some q_index, Some q) \<Rightarrow>
          if q_index + 1 < length codec_settings
          then codec_settings[q_index + 1 := str q]
          else codec_settings
      | _ \<Rightarrow> codec_settings)"

definition convert_file ::
  "env \<Rightarrow> string \<Rightarrow> string option \<Rightarrow> int option \<Rightarrow> string option \<Rightarrow> state \<Rightarrow> bool \<times> state"
where
  "convert_file E input_file output_file quality format st =
     (if \<not> isfile E (spawned st) input_file then
        (False, emit (PrintError (''The file '' @ quoted input_file @ '' does not exist.'')) st)
      else
        case resolve_output_format format output_file of
          None \<Rightarrow>
            (False, emit (PrintError ''No output format specified in output filename.'') st)
        | Some output_format \<Rightarrow>
            (let output_file =
                   (case output_file of
                      None \<Rightarrow> fst (splitext input_file) @ output_format
                    | Some p \<Rightarrow> p);
                 st = emit (Converting (basename input_file) (basename output_file)) st;
                 codec_settings = with_quality (get_output_codec output_format) quality;
                 ffmpeg_cmd = [''ffmpeg'', ''-i'', input_file] @ codec_settings @ [output_file];
                 st = emit Processing st;
                 (result, st) = run E ffmpeg_cmd st
             in case result of
                  Completed returncode stdout stderr \<Rightarrow>
                    if returncode \<noteq> 0 then
                      (False,
                       emits
                         ([ClearLine,
                           PrintError (''FFmpeg conversion failed for '' @ quoted input_file),
                           PrintWarn ''FFmpeg error details:'']
                          @ map (\<lambda>line. Print (''  '' @ line)) (last_five (splitlines stderr)))
                         st)
                    else
                      (True,
                       emits
                         [ClearLine,
                          PrintSuccess (''Successfully converted to '' @ basename output_file)]
                         st)
                | Raised e \<Rightarrow>
                    (False,
                     emits [ClearLine, PrintError (''An error occurred: '' @ str_exn e)] st)))"

subsection \<open>\<open>convert_folder\<close>\<close>

definition COMMON_AUDIO_FORMATS :: "string list" where
  "COMMON_AUDIO_FORMATS =
     [''.mp3'', ''.aac'', ''.ogg'', ''.opus'', ''.m4a'', ''.wma'', ''.vorbis'',
      ''.flac'', ''.wav'', ''.aiff'', ''.alac'', ''.ape'', ''.wv'',
      ''.ac3'', ''.amr'', ''.au'', ''.mid'', ''.mka'', ''.ra'', ''.shn'']"

definition non_audio_exts :: "string list" where
  "non_audio_exts =
     [''.txt'', ''.jpg'', ''.png'', ''.pdf'', ''.doc'', ''.docx'', ''.exe'', ''.zip'']"

text \<open>The test of the first loop: is the entry likely an audio file?\<close>

definition is_candidate :: "string \<Rightarrow> bool" where
  "is_candidate filename =
     (let file_ext = lower (snd (splitext filename))
      in file_ext \<noteq> [] \<and>
         (file_ext \<in> set COMMON_AUDIO_FORMATS \<or> file_ext \<notin> set non_audio_exts))"

text \<open>\<open>int((a / b) * 100)\<close>: the division raises at \<open>b = 0\<close>; otherwise the float
  computation of the environment gives the value.\<close>

definition percent :: "env \<Rightarrow> int \<Rightarrow> int \<Rightarrow> py_exn + int" where
  "percent E a b =
     (if b = 0 then Inl (Exn ZeroDivisionError ''division by zero'')
      else Inr (float_percent E a b))"

text \<open>The second loop, over \<open>enumerate(audio_files)\<close>: \<open>i\<close> is the index of the head of the
  list, and the triple holds \<open>success_count\<close>, \<open>skip_count\<close> and \<open>fail_count\<close>.\<close>

fun folder_loop ::
  "env \<Rightarrow> string \<Rightarrow> int option \<Rightarrow> string \<Rightarrow> string \<Rightarrow> int \<Rightarrow> int \<Rightarrow> string list \<Rightarrow>
   int \<times> int \<times> int \<Rightarrow> state \<Rightarrow> (py_exn + int \<times> int \<times> int) \<times> state"
where
  "folder_loop E folder_path quality format output_format total_files i [] counts st =
     (Inr counts, st)"
| "folder_loop E folder_path quality format output_format total_files i (filename # rest)
     (success_count, skip_count, fail_count) st =
     (let input_file = join folder_path filename
      in if endswith (lower filename) output_format then
           folder_loop E folder_path quality format output_format total_files (i + 1) rest
             (success_count, skip_count + 1, fail_count)
             (emit (PrintInfo (''['' @ str (i + 1) @ ''/'' @ str total_files @ ''] Skipping: ''
                               @ filename @ '' (already in target format)'')) st)
         else
           (let output_file = join folder_path (fst (splitext filename) @ output_format)
            in case percent E i total_files of
                 Inl e \<Rightarrow> (Inl e, st)
               | Inr pct \<Rightarrow>
                   (let st = emit (PrintInfo (''['' @ str (i + 1) @ ''/'' @ str total_files
                                              @ ''] ('' @ str pct @ ''%) Processing: ''
                                              @ filename)) st;
                        (ok, st) = convert_file E input_file (Some output_file) quality
                                     (Some format) st
                    in if ok then
                         folder_loop E folder_path quality format output_format total_files
                           (i + 1) rest (success_count + 1, skip_count, fail_count) st
                       else
                         folder_loop E folder_path quality format output_format total_files
                           (i + 1) rest (success_count, skip_count, fail_count + 1) st)))"

text \<open>The success rate of the summary line.\<close>

definition success_rate :: "env \<Rightarrow> int \<Rightarrow> int \<Rightarrow> int \<Rightarrow> py_exn + int" where
  "success_rate E success_count total_files skip_count =
     (if total_files - skip_count > 0
      then percent E success_count (total_files - skip_count)
      else Inr 0)"

definition convert_folder ::
  "env \<Rightarrow> string \<Rightarrow> int option \<Rightarrow> string \<Rightarrow> state \<Rightarrow> (py_exn + bool) \<times> state"
where
  "convert_folder E folder_path quality format st =
     (if \<not> isdir E (spawned st) folder_path then
        (Inr False,
         emit (PrintError (''The folder '' @ quoted folder_path @ '' does not exist.'')) st)
      else
        (let output_format = ''.'' @ lower format;
             all_files = listdir E (spawned st) folder_path;
             audio_files = filter is_candidate all_files;
             total_files = int (length audio_files)
         in if total_files = 0 then
              (Inr False,
               emit (PrintWarn (''No potential audio files found in '' @ quoted folder_path
                                @ ''.'')) st)
            else
              (let st = emit (PrintInfo (''Found '' @ str total_files
                                         @ '' potential audio files to convert.'')) st
               in case folder_loop E folder_path quality format output_format total_files 0
                         audio_files (0, 0, 0) st of
                    (Inl e, st) \<Rightarrow> (Inl e, st)
                  | (Inr (success_count, skip_count, fail_count), st) \<Rightarrow>
                      (case success_rate E success_count total_files skip_count of
                         Inl e \<Rightarrow> (Inl e, emit (Print []) st)
                       | Inr rate \<Rightarrow>
                           (Inr (success_count > 0),
                            emits [Print [],
                                   Summary total_files success_count skip_count fail_count rate]
                              st)))))"

subsection \<open>\<open>list_supported_formats\<close> and \<open>main\<close>\<close>

text \<open>\<open>f"{fmt:<8}"\<close>: padded with spaces on the right up to eight characters.\<close>

definition ljust8 :: "string \<Rightarrow> string" where
  "ljust8 s = s @ replicate (8 - length s) CHR '' ''"

text \<open>The rows \<open>formats[i:i+5]\<close> for \<open>i\<close> in \<open>range(0, len(formats), 5)\<close>.\<close>

fun rows_of_five :: "'a list \<Rightarrow> 'a list list" where
  "rows_of_five [] = []"
| "rows_of_five (x # xs) = take 5 (x # xs) # rows_of_five (drop 4 xs)"

definition list_supported_formats :: "state \<Rightarrow> state" where
  "list_supported_formats st =
     (let formats = map (lstrip CHR ''.'') COMMON_AUDIO_FORMATS
      in emits
           ([FormatsHeader]
            @ map (\<lambda>row. Print (''  '' @ concat (map ljust8 row))) (rows_of_five formats)
            @ [FormatsNote])
           st)"

text \<open>The parsed command line. \<open>--format\<close> and \<open>--quality\<close> have defaults, so they are always
  present; the other three options are \<open>None\<close> when absent.\<close>

record args =
  args_file :: "string option"
  args_directory :: "string option"
  args_list_formats :: bool
  args_output :: "string option"
  args_format :: string
  args_quality :: int

text \<open>\<open>main\<close>, from the point where \<open>parse_args\<close> has returned. \<open>argc\<close> is
  \<open>len(sys.argv)\<close>. The probe catches \<open>FileNotFoundError\<close> only: any other exception
  leaves \<open>main\<close>.\<close>

definition main :: "env \<Rightarrow> nat \<Rightarrow> args \<Rightarrow> state \<Rightarrow> (py_exn + int) \<times> state" where
  "main E argc a st =
     (let st = emit Banner st
      in if argc = 1 then (Inr 0, emit Help st)
         else
           (let (probe, st) = run E [''ffmpeg'', ''-version''] st
            in case probe of
                 Raised (Exn FileNotFoundError m) \<Rightarrow>
                   (Inr 1,
                    emits
                      [PrintError ''FFmpeg is not installed or not in the system PATH.'',
                       PrintInfo ''Please install FFmpeg to use this converter: https://ffmpeg.org/download.html'']
                      st)
               | Raised (Exn ZeroDivisionError m) \<Rightarrow> (Inl (Exn ZeroDivisionError m), st)
               | Raised (Exn OtherException m) \<Rightarrow> (Inl (Exn OtherException m), st)
               | Completed returncode stdout stderr \<Rightarrow>
                   if args_list_formats a then (Inr 0, list_supported_formats st)
                   else if \<not> truthy (args_file a) \<and> \<not> truthy (args_directory a) then
                     (Inr 1,
                      emit (PrintError ''No input specified. Use -f/--file or -d/--directory to specify input.'') st)
                   else if truthy (args_file a) then
                     (let output =
                            (if truthy (args_output a) \<and> snd (splitext (the (args_output a))) = []
                             then Some (the (args_output a) @ ''.'' @ args_format a)
                             else args_output a);
                          (success, st) =
                            convert_file E (the (args_file a)) output (Some (args_quality a))
                              (Some (args_format a)) st;
                          st = emit (Print []) st
                      in if success then
                           (Inr 0, emit (PrintSuccess ''File conversion completed successfully!'') st)
                         else (Inr 1, emit (PrintError ''File conversion failed.'') st))
                   else
                     (case convert_folder E (the (args_directory a)) (Some (args_quality a))
                             (args_format a) st of
                        (Inl e, st) \<Rightarrow> (Inl e, st)
                      | (Inr success, st) \<Rightarrow> (Inr (if success then 0 else 1), st))))"

text \<open>The script itself, \<open>sys.exit(main())\<close>: the exit status is what \<open>main\<close> returns, and 1
  when an exception leaves \<open>main\<close>.\<close>

definition exit_status :: "env \<Rightarrow> nat \<Rightarrow> args \<Rightarrow> state \<Rightarrow> int" where
  "exit_status E argc a st = (case fst (main E argc a st) of Inr code \<Rightarrow> code | Inl e \<Rightarrow> 1)"

subsection \<open>Commands of a batch run\<close>




subsection \<open>Example runs\<close>

text \<open>A fresh run: nothing printed, nothing spawned.\<close>

definition st0 :: state where
  "st0 = \<lparr>out = [], spawned = []\<rparr>"

text \<open>A directory \<open>music\<close> with the three files \<open>a.wav\<close>, \<open>b.mp3\<close> and \<open>c.txt\<close>, and a
  tool that succeeds on every command. Integer arithmetic stands in for the float
  percentage.\<close>

definition env_music :: env where
  "env_music =
     \<lparr>isfile = (\<lambda>h p. p \<in> set [''music/a.wav'', ''music/b.mp3'', ''music/c.txt'']),
      isdir = (\<lambda>h p. p = ''music''),
      listdir = (\<lambda>h p. if p = ''music'' then [''a.wav'', ''b.mp3'', ''c.txt''] else []),
      subprocess_run = (\<lambda>h cmd. Completed 0 [] []),
      float_percent = (\<lambda>a b. a * 100 div b)\<rparr>"

text \<open>Seven lines on standard error, \<open>e1\<close> to \<open>e7\<close>.\<close>

definition seven_lines :: string where
  "seven_lines =
     concat (map (\<lambda>l. l @ [CHR 0x0A]) [''e1'', ''e2'', ''e3'', ''e4'', ''e5'', ''e6'', ''e7''])"

text \<open>The same directory with a tool that is installed but fails on every conversion,
  leaving seven lines on standard error.\<close>

definition env_failing :: env where
  "env_failing =
     env_music\<lparr>subprocess_run :=
       (\<lambda>h cmd. if cmd = [''ffmpeg'', ''-version''] then Completed 0 [] []
                else Completed 1 [] seven_lines)\<rparr>"

text \<open>The same directory on a machine without the tool.\<close>

definition env_no_ffmpeg :: env where
  "env_no_ffmpeg =
     env_music\<lparr>subprocess_run :=
       (\<lambda>h cmd. Raised (Exn FileNotFoundError
          ''[Errno 2] No such file or directory: ffmpeg''))\<rparr>"

text \<open>A directory whose only entry is \<open>b.mp3\<close>.\<close>

definition env_only_mp3 :: env where
  "env_only_mp3 = env_music\<lparr>listdir := (\<lambda>h p. [''b.mp3''])\<rparr>"

text \<open>The command line \<open>--list-formats\<close>.\<close>

definition args_list_formats_only :: args where
  "args_list_formats_only =
     \<lparr>args_file = None, args_directory = None, args_list_formats = True,
      args_output = None, args_format = ''ogg'', args_quality = 5\<rparr>"

section \<open>Properties\<close>

subsection \<open>Auxiliary facts\<close>

lemma lower_char_bit5:
  "lower_char (Char b0 b1 b2 b3 b4 True b6 b7) = Char b0 b1 b2 b3 b4 True b6 b7"
  by (cases b0; cases b1; cases b2; cases b3; cases b4; cases b6; cases b7;
      simp add: lower_char_def)

lemma lower_char_cases:
  "lower_char c = c \<or>
   (\<exists>b0 b1 b2 b3 b4 b6 b7. lower_char c = Char b0 b1 b2 b3 b4 True b6 b7)"
  by (cases c) (simp add: lower_char_def Let_def del: of_char_Char)

lemma lower_char_idem: "lower_char (lower_char c) = lower_char c"
  using lower_char_cases [of c] lower_char_bit5 by metis

lemma lower_idem: "lower (lower s) = lower s"
  by (simp add: lower_def lower_char_idem)

lemma lower_append: "lower (s @ t) = lower s @ lower t"
  by (simp add: lower_def)

lemma get_output_codec_cases:
  "get_output_codec f =
     (if lower f = ''.mp3'' then [''-c:a'', ''libmp3lame'', ''-q:a'', ''4'']
      else if lower f = ''.ogg'' then [''-c:a'', ''libvorbis'', ''-q:a'', ''5'']
      else if lower f = ''.opus'' then [''-c:a'', ''libopus'', ''-b:a'', ''128k'']
      else if lower f = ''.m4a'' then [''-c:a'', ''aac'', ''-b:a'', ''192k'']
      else if lower f = ''.flac'' then [''-c:a'', ''flac'']
      else if lower f = ''.wav'' then [''-c:a'', ''pcm_s16le'']
      else if lower f = ''.aac'' then [''-c:a'', ''aac'', ''-b:a'', ''192k'']
      else if lower f = ''.wma'' then [''-c:a'', ''wmav2'', ''-b:a'', ''192k'']
      else if lower f = ''.alac'' then [''-c:a'', ''alac'']
      else [''-c:a'', ''copy''])"
  unfolding get_output_codec_def format_codec_map_def by auto

text \<open>When the input file exists and a target format is resolved, \<open>convert_file\<close> hands
  exactly one command to the tool.\<close>

lemma convert_file_spawn:
  assumes "isfile E (spawned st) input_file"
    and "resolve_output_format format output_file = Some output_format"
  shows "spawned (snd (convert_file E input_file output_file quality format st)) =
           spawned st @
           [[''ffmpeg'', ''-i'', input_file]
            @ with_quality (get_output_codec output_format) quality
            @ [case output_file of
                 None \<Rightarrow> fst (splitext input_file) @ output_format
               | Some p \<Rightarrow> p]]"
  using assms
  by (simp add: convert_file_def run_def emit_def emits_def Let_def
           split: run_result.split prod.split)

subsection \<open>The codec table\<close>

text \<open>
  Claim C6. The lookup in the codec table ignores the case of the key: a format string
  and its lower-case form get the same answer. The nine known formats \<open>.mp3\<close>, \<open>.ogg\<close>,
  \<open>.opus\<close>, \<open>.m4a\<close>, \<open>.flac\<close>, \<open>.wav\<close>, \<open>.aac\<close>, \<open>.wma\<close> and \<open>.alac\<close> get their
  argument sequence, and every other string gets the stream copy \<open>-c:a copy\<close>. The
  function is total: it has no error value.
\<close>

theorem get_output_codec_table:
  "get_output_codec (lower f) = get_output_codec f \<and>
   get_output_codec f =
     (if lower f = ''.mp3'' then [''-c:a'', ''libmp3lame'', ''-q:a'', ''4'']
      else if lower f = ''.ogg'' then [''-c:a'', ''libvorbis'', ''-q:a'', ''5'']
      else if lower f = ''.opus'' then [''-c:a'', ''libopus'', ''-b:a'', ''128k'']
      else if lower f = ''.m4a'' then [''-c:a'', ''aac'', ''-b:a'', ''192k'']
      else if lower f = ''.flac'' then [''-c:a'', ''flac'']
      else if lower f = ''.wav'' then [''-c:a'', ''pcm_s16le'']
      else if lower f = ''.aac'' then [''-c:a'', ''aac'', ''-b:a'', ''192k'']
      else if lower f = ''.wma'' then [''-c:a'', ''wmav2'', ''-b:a'', ''192k'']
      else if lower f = ''.alac'' then [''-c:a'', ''alac'']
      else [''-c:a'', ''copy''])"
proof
  show "get_output_codec (lower f) = get_output_codec f"
    by (simp add: get_output_codec_def lower_idem)
qed (rule get_output_codec_cases)

theorem get_output_codec_table_witness:
  "get_output_codec ''.FLAC'' = [''-c:a'', ''flac''] \<and>
   get_output_codec ''.Mp3'' = [''-c:a'', ''libmp3lame'', ''-q:a'', ''4''] \<and>
   get_output_codec ''.xyz'' = [''-c:a'', ''copy''] \<and>
   get_output_codec ''mp3'' = [''-c:a'', ''copy'']"
  using get_output_codec_table [of "''.FLAC''"] get_output_codec_table [of "''.Mp3''"]
    get_output_codec_table [of "''.xyz''"] get_output_codec_table [of "''mp3''"]
  by (simp add: lower_def lower_char_def)

subsection \<open>\<open>convert_file\<close>\<close>

text \<open>
  Claim C2. When the input path is not an existing regular file, \<open>convert_file\<close> returns
  \<open>False\<close>, prints the one error line, and hands no command to \<open>subprocess.run\<close>: the
  history of spawned commands is the one it started with.
\<close>

theorem convert_file_missing_input:
  assumes "\<not> isfile E (spawned st) input_file"
  shows "convert_file E input_file output_file quality format st =
           (False,
            st\<lparr>out := out st
                 @ [PrintError (''The file '' @ quoted input_file @ '' does not exist.'')]\<rparr>)
         \<and> spawned (snd (convert_file E input_file output_file quality format st))
             = spawned st"
  using assms by (simp add: convert_file_def emit_def)

theorem convert_file_missing_input_witness:
  "\<not> isfile env_music (spawned st0) ''music/missing.wav'' \<and>
   fst (convert_file env_music ''music/missing.wav'' None (Some 5) (Some ''mp3'') st0) = False \<and>
   spawned (snd (convert_file env_music ''music/missing.wav'' None (Some 5) (Some ''mp3'') st0))
     = []"
  using convert_file_missing_input
          [of env_music st0 "''music/missing.wav''" None "Some 5" "Some ''mp3''"]
  by (simp add: env_music_def st0_def)

text \<open>
  Claim C7. Converting an existing file with format \<open>ogg\<close> and quality 8 hands the tool a
  command whose codec arguments are \<open>-c:a libvorbis -q:a 8\<close>: the value after \<open>-q:a\<close> is
  the quality of the request, in place of the 5 of the table. In general the value after
  \<open>-q:a\<close> is \<open>str\<close> of the quality.
\<close>

theorem convert_file_ogg_quality_8:
  assumes "isfile E (spawned st) input_file"
  shows "spawned (snd (convert_file E input_file output_file (Some 8) (Some ''ogg'') st)) =
           spawned st @
           [[''ffmpeg'', ''-i'', input_file, ''-c:a'', ''libvorbis'', ''-q:a'', ''8'',
             (case output_file of
                None \<Rightarrow> fst (splitext input_file) @ ''.ogg''
              | Some p \<Rightarrow> p)]]
         \<and> with_quality (get_output_codec ''.ogg'') (Some q)
             = [''-c:a'', ''libvorbis'', ''-q:a'', str q]"
proof -
  have r: "resolve_output_format (Some ''ogg'') output_file = Some ''.ogg''"
    by (simp add: resolve_output_format_def truthy_def lower_def lower_char_def)
  have c: "get_output_codec ''.ogg'' = [''-c:a'', ''libvorbis'', ''-q:a'', ''5'']"
    by (simp add: get_output_codec_cases lower_def lower_char_def)
  have w: "with_quality [''-c:a'', ''libvorbis'', ''-q:a'', ''5''] (Some k)
             = [''-c:a'', ''libvorbis'', ''-q:a'', str k]" for k
    by (simp add: with_quality_def)
  have s: "str 8 = ''8''"
    by (simp add: str_def str_nat.simps)
  show ?thesis
    using convert_file_spawn [OF assms r, of "Some 8"] by (simp add: c w s)
qed

theorem convert_file_ogg_quality_8_witness:
  "isfile env_music (spawned st0) ''music/a.wav'' \<and>
   spawned (snd (convert_file env_music ''music/a.wav'' None (Some 8) (Some ''ogg'') st0)) =
     [[''ffmpeg'', ''-i'', ''music/a.wav'', ''-c:a'', ''libvorbis'', ''-q:a'', ''8'',
       ''music/a.ogg'']]"
  using convert_file_ogg_quality_8 [of env_music st0 "''music/a.wav''" None]
  by (simp add: env_music_def st0_def splitext_def rfind_def)

text \<open>
  Claim C5. Whenever \<open>convert_file\<close> has handed a command to the tool and the tool's answer
  to it is a completed process with a non-zero return code, the result is \<open>False\<close>, and
  after the two heading lines the lines printed are the last five lines of the captured
  standard error, each indented by two spaces: at most five lines, and the lines before
  them (all but five) are not printed.
\<close>

theorem convert_file_nonzero_exit:
  assumes "convert_file E input_file output_file quality format st = (ok, st')"
    and "spawned st' = spawned st @ [cmd]"
    and "subprocess_run E (spawned st) cmd = Completed returncode so se"
    and "returncode \<noteq> 0"
  shows "ok = False \<and>
         (\<exists>a b. out st' = out st @
            [Converting a b, Processing, ClearLine,
             PrintError (''FFmpeg conversion failed for '' @ quoted input_file),
             PrintWarn ''FFmpeg error details:'']
            @ map (\<lambda>line. Print (''  '' @ line)) (last_five (splitlines se))) \<and>
         length (last_five (splitlines se)) \<le> 5 \<and>
         (\<exists>dropped. splitlines se = dropped @ last_five (splitlines se) \<and>
                     length dropped = length (splitlines se) - 5)"
proof -
  have l: "length (last_five xs) \<le> 5" for xs :: "string list"
    by (simp add: last_five_def)
  have d: "xs = take (length xs - 5) xs @ last_five xs \<and>
           length (take (length xs - 5) xs) = length xs - 5" for xs :: "string list"
    by (simp add: last_five_def)
  have m: "ok = False \<and>
         (\<exists>a b. out st' = out st @
            [Converting a b, Processing, ClearLine,
             PrintError (''FFmpeg conversion failed for '' @ quoted input_file),
             PrintWarn ''FFmpeg error details:'']
            @ map (\<lambda>line. Print (''  '' @ line)) (last_five (splitlines se)))"
    using assms
    by (auto simp add: convert_file_def run_def emit_def emits_def Let_def
             split: if_splits option.splits run_result.splits prod.splits)
  show ?thesis using m l d by blast
qed

theorem convert_file_nonzero_exit_witness:
  "convert_file env_failing ''music/a.wav'' None (Some 5) (Some ''mp3'') st0 =
     (False,
      \<lparr>out = [Converting ''a.wav'' ''a.mp3'', Processing, ClearLine,
              PrintError (''FFmpeg conversion failed for '' @ quoted ''music/a.wav''),
              PrintWarn ''FFmpeg error details:'',
              Print ''  e3'', Print ''  e4'', Print ''  e5'', Print ''  e6'', Print ''  e7''],
       spawned = [[''ffmpeg'', ''-i'', ''music/a.wav'', ''-c:a'', ''libmp3lame'', ''-q:a'', ''5'',
                   ''music/a.mp3'']]\<rparr>)
   \<and> subprocess_run env_failing (spawned st0)
        [''ffmpeg'', ''-i'', ''music/a.wav'', ''-c:a'', ''libmp3lame'', ''-q:a'', ''5'',
         ''music/a.mp3'']
       = Completed 1 [] seven_lines
   \<and> (1::int) \<noteq> 0
   \<and> length (last_five (splitlines seven_lines)) \<le> 5
   \<and> length (splitlines seven_lines) = 7"
proof -
  let ?cmd = "[''ffmpeg'', ''-i'', ''music/a.wav'', ''-c:a'', ''libmp3lame'', ''-q:a'', ''5'',
               ''music/a.mp3'']"
  let ?st' = "\<lparr>out = [Converting ''a.wav'' ''a.mp3'', Processing, ClearLine,
              PrintError (''FFmpeg conversion failed for '' @ quoted ''music/a.wav''),
              PrintWarn ''FFmpeg error details:'',
              Print ''  e3'', Print ''  e4'', Print ''  e5'', Print ''  e6'', Print ''  e7''],
       spawned = [?cmd]\<rparr>"
  have sl: "splitlines seven_lines = [''e1'', ''e2'', ''e3'', ''e4'', ''e5'', ''e6'', ''e7'']"
    by (simp add: splitlines_def seven_lines_def is_linebreak_def)
  have r: "subprocess_run env_failing (spawned st0) ?cmd = Completed 1 [] seven_lines"
    by (simp add: env_failing_def)
  have c: "get_output_codec ''.mp3'' = [''-c:a'', ''libmp3lame'', ''-q:a'', ''4'']"
    by (simp add: get_output_codec_cases lower_def lower_char_def)
  have full: "convert_file env_failing ''music/a.wav'' None (Some 5) (Some ''mp3'') st0
                = (False, ?st')"
    by (simp add: convert_file_def env_failing_def env_music_def st0_def
          resolve_output_format_def truthy_def lower_def lower_char_def c with_quality_def
          str_def str_nat.simps splitext_def basename_def rfind_def run_def emit_def emits_def
          sl last_five_def)
  have sp: "spawned ?st' = spawned st0 @ [?cmd]"
    by (simp add: st0_def)
  have n: "(1::int) \<noteq> 0" by simp
  show ?thesis
    using convert_file_nonzero_exit [OF full sp r n] full r by (simp add: sl)
qed

text \<open>
  Claim C9. With a non-empty format override and an explicit output path, the command
  that \<open>convert_file\<close> hands to the tool ends in the output path exactly as given, and its
  codec arguments are those of the format override; the format resolved does not depend
  on the output path. So \<open>-o song.mp3 --format flac\<close> writes FLAC audio to \<open>song.mp3\<close>.
\<close>

theorem convert_file_format_override_keeps_output:
  assumes "isfile E (spawned st) input_file" and "f \<noteq> []"
  shows "spawned (snd (convert_file E input_file (Some p) quality (Some f) st)) =
           spawned st @
           [[''ffmpeg'', ''-i'', input_file]
            @ with_quality (get_output_codec (''.'' @ lower f)) quality @ [p]]
         \<and> resolve_output_format (Some f) (Some p) = resolve_output_format (Some f) (Some p')"
proof -
  have r: "resolve_output_format (Some f) x = Some (''.'' @ lower f)" for x
    using assms(2) by (simp add: resolve_output_format_def truthy_def)
  show ?thesis
    using convert_file_spawn [OF assms(1) r, of "Some p" quality] by (simp add: r)
qed

theorem convert_file_format_override_keeps_output_witness:
  "isfile env_music (spawned st0) ''music/a.wav'' \<and> ''flac'' \<noteq> [] \<and>
   spawned (snd (convert_file env_music ''music/a.wav'' (Some ''music/song.mp3'') (Some 5)
                   (Some ''flac'') st0)) =
     [[''ffmpeg'', ''-i'', ''music/a.wav'', ''-c:a'', ''flac'', ''music/song.mp3'']]"
  using convert_file_format_override_keeps_output
          [of env_music st0 "''music/a.wav''" "''flac''" "''music/song.mp3''" "Some 5"]
  by (simp add: env_music_def st0_def get_output_codec_cases lower_def lower_char_def
                with_quality_def)

text \<open>Without the flag \<open>-q:a\<close> in the codec arguments the quality changes nothing.\<close>

lemma index_of_None: "index_of xs x = None \<longleftrightarrow> x \<notin> set xs"
  by (induction xs) auto

lemma with_quality_no_flag: "''-q:a'' \<notin> set cs \<Longrightarrow> with_quality cs q = cs"
  by (simp add: with_quality_def index_of_None [THEN iffD2])

lemma quality_flag_iff:
  "(''-q:a'' \<in> set (get_output_codec f)) = (lower f = ''.mp3'' \<or> lower f = ''.ogg'')"
  by (simp add: get_output_codec_cases)

text \<open>
  Claim C10. When the codec arguments of the resolved target format do not contain
  \<open>-q:a\<close>, two calls of \<open>convert_file\<close> that differ only in the quality do the same: the
  same result, the same lines, the same command. The flag is in the codec arguments
  exactly for the formats \<open>.mp3\<close> and \<open>.ogg\<close> (in any case), so for every other format,
  known or unknown, the quality has no influence.
\<close>

theorem convert_file_quality_irrelevant:
  assumes "resolve_output_format format output_file = Some fmt"
    and "''-q:a'' \<notin> set (get_output_codec fmt)"
  shows "convert_file E input_file output_file q1 format st
           = convert_file E input_file output_file q2 format st
         \<and> (''-q:a'' \<in> set (get_output_codec f)) = (lower f = ''.mp3'' \<or> lower f = ''.ogg'')"
  using assms by (simp add: convert_file_def with_quality_no_flag quality_flag_iff)

theorem convert_file_quality_irrelevant_witness:
  "resolve_output_format (Some ''flac'') None = Some ''.flac'' \<and>
   ''-q:a'' \<notin> set (get_output_codec ''.flac'') \<and>
   convert_file env_music ''music/a.wav'' None (Some 0) (Some ''flac'') st0
     = convert_file env_music ''music/a.wav'' None (Some 10) (Some ''flac'') st0"
  using convert_file_quality_irrelevant
          [of "Some ''flac''" None "''.flac''" env_music "''music/a.wav''" "Some 0" st0 "Some 10"]
  by (simp add: resolve_output_format_def truthy_def get_output_codec_cases lower_def
                lower_char_def)

lemma lower_Nil_iff: "lower s = [] \<longleftrightarrow> s = []"
  by (simp add: lower_def)

text \<open>
  The resolution of the target format, on every call with an existing input file. The
  target format is the lower-cased format override with a dot in front when the override is
  a non-empty string; otherwise the lower-cased extension of the output path when that path
  is a non-empty string; otherwise \<open>.ogg\<close>. A non-empty output path without an extension,
  with no non-empty format override, ends the call with \<open>False\<close> and the line "No output
  format specified in output filename." before any command is run. When the output path is
  \<open>None\<close>, the output path of the command is the input path with its extension replaced
  by the target format. The last case is the empty string as output path with no non-empty
  override: the format test (\<open>elif output_file:\<close>) takes the path as absent and falls
  through to \<open>.ogg\<close>, and the test that derives the path (\<open>if output_file is None:\<close>)
  takes it as present, so the command is run with the empty string as its output path.
\<close>

lemma convert_file_format_resolution:
  assumes "isfile E (spawned st) input_file"
  shows
   "(truthy format \<longrightarrow>
       spawned (snd (convert_file E input_file output_file quality format st)) =
         spawned st @
         [[''ffmpeg'', ''-i'', input_file]
          @ with_quality (get_output_codec (''.'' @ lower (the format))) quality
          @ [case output_file of
               None \<Rightarrow> fst (splitext input_file) @ ''.'' @ lower (the format)
             | Some p \<Rightarrow> p]]) \<and>
    (\<not> truthy format \<and> truthy output_file \<and> snd (splitext (the output_file)) \<noteq> [] \<longrightarrow>
       spawned (snd (convert_file E input_file output_file quality format st)) =
         spawned st @
         [[''ffmpeg'', ''-i'', input_file]
          @ with_quality (get_output_codec (lower (snd (splitext (the output_file))))) quality
          @ [the output_file]]) \<and>
    (\<not> truthy format \<and> truthy output_file \<and> snd (splitext (the output_file)) = [] \<longrightarrow>
       convert_file E input_file output_file quality format st =
         (False,
          st\<lparr>out := out st @ [PrintError ''No output format specified in output filename.'']\<rparr>)) \<and>
    (\<not> truthy format \<and> output_file = None \<longrightarrow>
       spawned (snd (convert_file E input_file output_file quality format st)) =
         spawned st @
         [[''ffmpeg'', ''-i'', input_file]
          @ with_quality (get_output_codec ''.ogg'') quality
          @ [fst (splitext input_file) @ ''.ogg'']]) \<and>
    (\<not> truthy format \<and> output_file = Some [] \<longrightarrow>
       spawned (snd (convert_file E input_file output_file quality format st)) =
         spawned st @
         [[''ffmpeg'', ''-i'', input_file]
          @ with_quality (get_output_codec ''.ogg'') quality
          @ [[]]])"
proof (intro conjI impI)
  assume t: "truthy format"
  then have "resolve_output_format format output_file = Some (''.'' @ lower (the format))"
    by (simp add: resolve_output_format_def)
  from convert_file_spawn [OF assms this]
  show "spawned (snd (convert_file E input_file output_file quality format st)) =
         spawned st @
         [[''ffmpeg'', ''-i'', input_file]
          @ with_quality (get_output_codec (''.'' @ lower (the format))) quality
          @ [case output_file of
               None \<Rightarrow> fst (splitext input_file) @ ''.'' @ lower (the format)
             | Some p \<Rightarrow> p]]"
    by simp
next
  assume a: "\<not> truthy format \<and> truthy output_file \<and> snd (splitext (the output_file)) \<noteq> []"
  then have "resolve_output_format format output_file
               = Some (lower (snd (splitext (the output_file))))"
    by (simp add: resolve_output_format_def Let_def lower_Nil_iff)
  from convert_file_spawn [OF assms this] a
  show "spawned (snd (convert_file E input_file output_file quality format st)) =
         spawned st @
         [[''ffmpeg'', ''-i'', input_file]
          @ with_quality (get_output_codec (lower (snd (splitext (the output_file))))) quality
          @ [the output_file]]"
    by (cases output_file) (simp_all add: truthy_def)
next
  assume a: "\<not> truthy format \<and> truthy output_file \<and> snd (splitext (the output_file)) = []"
  then have "resolve_output_format format output_file = None"
    by (simp add: resolve_output_format_def Let_def lower_Nil_iff)
  then show "convert_file E input_file output_file quality format st =
         (False,
          st\<lparr>out := out st @ [PrintError ''No output format specified in output filename.'']\<rparr>)"
    using assms by (simp add: convert_file_def emit_def)
next
  assume a: "\<not> truthy format \<and> output_file = None"
  then have "resolve_output_format format output_file = Some ''.ogg''"
    by (simp add: resolve_output_format_def truthy_def)
  from convert_file_spawn [OF assms this] a
  show "spawned (snd (convert_file E input_file output_file quality format st)) =
         spawned st @
         [[''ffmpeg'', ''-i'', input_file]
          @ with_quality (get_output_codec ''.ogg'') quality
          @ [fst (splitext input_file) @ ''.ogg'']]"
    by simp
next
  assume a: "\<not> truthy format \<and> output_file = Some []"
  then have "resolve_output_format format output_file = Some ''.ogg''"
    by (simp add: resolve_output_format_def truthy_def)
  from convert_file_spawn [OF assms this] a
  show "spawned (snd (convert_file E input_file output_file quality format st)) =
         spawned st @
         [[''ffmpeg'', ''-i'', input_file]
          @ with_quality (get_output_codec ''.ogg'') quality
          @ [[]]]"
    by simp
qed

lemma convert_file_format_resolution_examples:
  "isfile env_music (spawned st0) ''music/a.wav'' \<and>
   truthy (Some ''MP3'') \<and>
   spawned (snd (convert_file env_music ''music/a.wav'' (Some ''out.wav'') (Some 5) (Some ''MP3'') st0)) =
     [[''ffmpeg'', ''-i'', ''music/a.wav'', ''-c:a'', ''libmp3lame'', ''-q:a'', ''5'', ''out.wav'']] \<and>
   spawned (snd (convert_file env_music ''music/a.wav'' None (Some 5) (Some ''MP3'') st0)) =
     [[''ffmpeg'', ''-i'', ''music/a.wav'', ''-c:a'', ''libmp3lame'', ''-q:a'', ''5'', ''music/a.mp3'']] \<and>
   \<not> truthy None \<and> truthy (Some ''out.FLAC'') \<and> snd (splitext ''out.FLAC'') \<noteq> [] \<and>
   spawned (snd (convert_file env_music ''music/a.wav'' (Some ''out.FLAC'') (Some 5) None st0)) =
     [[''ffmpeg'', ''-i'', ''music/a.wav'', ''-c:a'', ''flac'', ''out.FLAC'']] \<and>
   truthy (Some ''out'') \<and> snd (splitext ''out'') = [] \<and>
   convert_file env_music ''music/a.wav'' (Some ''out'') (Some 5) None st0 =
     (False, \<lparr>out = [PrintError ''No output format specified in output filename.''], spawned = []\<rparr>) \<and>
   spawned (snd (convert_file env_music ''music/a.wav'' None (Some 5) None st0)) =
     [[''ffmpeg'', ''-i'', ''music/a.wav'', ''-c:a'', ''libvorbis'', ''-q:a'', ''5'', ''music/a.ogg'']]"
proof -
  have f: "isfile env_music (spawned st0) ''music/a.wav''"
    by (simp add: env_music_def)
  have e1: "splitext ''music/a.wav'' = (''music/a'', ''.wav'')"
    by (simp add: splitext_def rfind_def)
  have e2: "splitext ''out.FLAC'' = (''out'', ''.FLAC'')"
    by (simp add: splitext_def rfind_def)
  have e3: "splitext ''out'' = (''out'', [])"
    by (simp add: splitext_def rfind_def)
  have s: "str 5 = ''5''" by (simp add: str_def str_nat.simps)
  show ?thesis
    using f convert_file_format_resolution [OF f, of "Some ''MP3''" "Some ''out.wav''" "Some 5"]
      convert_file_format_resolution [OF f, of "Some ''MP3''" None "Some 5"]
      convert_file_format_resolution [OF f, of None "Some ''out.FLAC''" "Some 5"]
      convert_file_format_resolution [OF f, of None "Some ''out''" "Some 5"]
      convert_file_format_resolution [OF f, of None None "Some 5"]
    by (simp add: e1 e2 e3 s truthy_def st0_def get_output_codec_cases lower_def lower_char_def with_quality_def)
qed

text \<open>
  Claim C4. The claim gives the precedence format override, extension of the output path,
  \<open>.ogg\<close>; a validation failure for an output path without an extension and no override;
  and a derived output path when no output path is supplied. The code breaks it at the empty
  string as output path with no format override. For the existing file \<open>music/a.wav\<close>
  the call returns \<open>True\<close> and is no validation failure; the tool is run with the codec
  of \<open>.ogg\<close>; and the output path handed to the tool is the empty string, not the derived
  path \<open>music/a.ogg\<close>. The block under the comment "Determine output file name if not
  specified" tests \<open>output_file is None\<close>, where the format test two lines above it and the
  test in \<open>main\<close> take the truth value of the path.
\<close>

theorem convert_file_empty_output_path:
  "convert_file env_music ''music/a.wav'' (Some []) (Some 5) None st0 =
     (True,
      \<lparr>out = [Converting ''a.wav'' [], Processing, ClearLine,
              PrintSuccess ''Successfully converted to ''],
       spawned = [[''ffmpeg'', ''-i'', ''music/a.wav'', ''-c:a'', ''libvorbis'', ''-q:a'', ''5'',
                   []]]\<rparr>)
   \<and> convert_file env_music ''music/a.wav'' (Some []) (Some 5) None st0 \<noteq>
       (False, emit (PrintError ''No output format specified in output filename.'') st0)
   \<and> last (last (spawned (snd (convert_file env_music ''music/a.wav'' (Some []) (Some 5) None
                                  st0))))
       \<noteq> fst (splitext ''music/a.wav'') @ ''.ogg''"
  by (simp add: convert_file_def env_music_def st0_def
          resolve_output_format_def truthy_def get_output_codec_cases lower_def lower_char_def
          with_quality_def str_def str_nat.simps splitext_def basename_def rfind_def run_def
          emit_def emits_def)

subsection \<open>\<open>convert_folder\<close>\<close>





lemma folder_loop_no_exn:
  "total_files \<noteq> 0 \<Longrightarrow>
   fst (folder_loop E folder_path quality format output_format total_files i files counts st) \<noteq> Inl e"
  by (induction E folder_path quality format output_format total_files i files counts st
        rule: folder_loop.induct)
     (auto simp add: percent_def Let_def split: prod.splits)

lemma folder_loop_Inl:
  "folder_loop E folder_path quality format output_format total_files i files counts st = (Inl e, st')
   \<Longrightarrow> total_files = 0"
  using folder_loop_no_exn [of total_files E folder_path quality format output_format i files counts st e]
  by auto

lemma success_rate_cases:
  "success_rate E s t k = Inr (if t - k > 0 then float_percent E s (t - k) else 0)"
  by (simp add: success_rate_def percent_def)




lemma str_1: "str 1 = ''1''" by (simp add: str_def str_nat.simps)

lemma splitext_a_wav: "splitext ''a.wav'' = (''a'', ''.wav'')"
  by (simp add: splitext_def rfind_def)
lemma splitext_b_mp3: "splitext ''b.mp3'' = (''b'', ''.mp3'')"
  by (simp add: splitext_def rfind_def)
lemma splitext_c_txt: "splitext ''c.txt'' = (''c'', ''.txt'')"
  by (simp add: splitext_def rfind_def)

lemma candidates_example:
  "is_candidate ''a.wav''" "is_candidate ''b.mp3''" "\<not> is_candidate ''c.txt''"
  by (simp_all add: is_candidate_def splitext_a_wav splitext_b_mp3 splitext_c_txt lower_def
        lower_char_def COMMON_AUDIO_FORMATS_def non_audio_exts_def)




text \<open>
  Claim C8. The success rate of the summary never divides by zero. When the number of
  skipped candidates equals the total, the rate is 0 and the division is not reached;
  \<open>convert_folder\<close> never ends in an exception, so no \<open>ZeroDivisionError\<close> leaves it from
  either percentage; and every run whose summary has as many skipped candidates as
  candidates reports the rate 0.
\<close>

theorem convert_folder_rate_never_divides_by_zero:
  "success_rate E n_converted n_total n_total = Inr 0 \<and>
   fst (convert_folder E folder_path quality format st) \<noteq> Inl e \<and>
   (last (out (snd (convert_folder E folder_path quality format st)))
      = Summary n_total n_converted n_skipped n_failed rate \<and> n_skipped = n_total \<longrightarrow> rate = 0)"
proof (intro conjI impI)
  show "success_rate E n_converted n_total n_total = Inr 0" by (simp add: success_rate_cases)
next
  show "fst (convert_folder E folder_path quality format st) \<noteq> Inl e"
    by (auto simp add: convert_folder_def Let_def success_rate_cases emit_def emits_def
          split: prod.splits sum.splits dest: folder_loop_Inl)
next
  assume "last (out (snd (convert_folder E folder_path quality format st)))
      = Summary n_total n_converted n_skipped n_failed rate \<and> n_skipped = n_total"
  then show "rate = 0"
    by (auto simp add: convert_folder_def Let_def success_rate_cases emit_def emits_def
          split: prod.splits sum.splits if_splits dest: folder_loop_Inl)
qed

theorem convert_folder_rate_never_divides_by_zero_witness:
  "convert_folder env_only_mp3 ''music'' (Some 5) ''mp3'' st0 =
     (Inr False,
      \<lparr>out =
         [PrintInfo ''Found 1 potential audio files to convert.'',
          PrintInfo ''[1/1] Skipping: b.mp3 (already in target format)'',
          Print [],
          Summary 1 0 1 0 0],
       spawned = []\<rparr>) \<and>
   last (out (snd (convert_folder env_only_mp3 ''music'' (Some 5) ''mp3'' st0)))
     = Summary 1 0 1 0 0 \<and>
   success_rate env_only_mp3 0 1 1 = Inr 0"
proof -
  have l: "lower ''b.mp3'' = ''b.mp3''" "lower ''mp3'' = ''mp3''"
    by (simp_all add: lower_def lower_char_def)
  have e: "endswith ''b.mp3'' ''.mp3''" by (simp add: endswith_def)
  have c: "is_candidate ''b.mp3''" by (rule candidates_example)
  have full: "convert_folder env_only_mp3 ''music'' (Some 5) ''mp3'' st0 =
     (Inr False,
      \<lparr>out =
         [PrintInfo ''Found 1 potential audio files to convert.'',
          PrintInfo ''[1/1] Skipping: b.mp3 (already in target format)'',
          Print [],
          Summary 1 0 1 0 0],
       spawned = []\<rparr>)"
    by (simp add: convert_folder_def env_only_mp3_def env_music_def st0_def Let_def c l e
          str_1 success_rate_cases emit_def emits_def)
  show ?thesis
    using convert_folder_rate_never_divides_by_zero [of env_only_mp3 0 1 "''music''" "Some 5" "''mp3''" st0 _ 1 0 0]
    by (simp add: full)
qed

subsection \<open>\<open>main\<close>\<close>

text \<open>
  Claim C1, as the code has it. With no argument at all the script shows the help and exits
  with status 0 without probing for the tool. With \<open>--list-formats\<close> it exits with status 0
  when the probe \<open>ffmpeg -version\<close> completes. The probe comes before the test for
  \<open>--list-formats\<close>: whenever there is an argument and the probe raises
  \<open>FileNotFoundError\<close>, \<open>main\<close> prints that FFmpeg is not installed and returns 1, whatever
  the arguments are.
\<close>

theorem main_help_and_list_formats_exit:
  "(argc = 1 \<longrightarrow> exit_status E argc a st = 0 \<and> spawned (snd (main E argc a st)) = spawned st) \<and>
   (argc \<noteq> 1 \<and> args_list_formats a \<and>
    subprocess_run E (spawned st) [''ffmpeg'', ''-version''] = Completed rc so se \<longrightarrow>
      exit_status E argc a st = 0) \<and>
   (argc \<noteq> 1 \<and>
    subprocess_run E (spawned st) [''ffmpeg'', ''-version''] = Raised (Exn FileNotFoundError m) \<longrightarrow>
      main E argc a st =
        (Inr 1,
         \<lparr>out = out st @
            [Banner,
             PrintError ''FFmpeg is not installed or not in the system PATH.'',
             PrintInfo ''Please install FFmpeg to use this converter: https://ffmpeg.org/download.html''],
          spawned = spawned st @ [[''ffmpeg'', ''-version'']]\<rparr>) \<and>
      exit_status E argc a st = 1)"
  by (simp add: exit_status_def main_def run_def emit_def emits_def Let_def)

text \<open>
  The claim as it is worded fails: on a machine without the tool, \<open>--list-formats\<close> exits
  with status 1, not 0.
\<close>

theorem main_list_formats_without_ffmpeg:
  "args_list_formats args_list_formats_only \<and>
   exit_status env_no_ffmpeg 2 args_list_formats_only st0 = 1 \<and>
   exit_status env_no_ffmpeg 2 args_list_formats_only st0 \<noteq> 0"
  by (simp add: exit_status_def main_def run_def emit_def emits_def Let_def env_no_ffmpeg_def
        args_list_formats_only_def)

theorem main_help_and_list_formats_exit_witness:
  "exit_status env_no_ffmpeg 1 args_list_formats_only st0 = 0 \<and>
   args_list_formats args_list_formats_only \<and>
   subprocess_run env_music (spawned st0) [''ffmpeg'', ''-version''] = Completed 0 [] [] \<and>
   exit_status env_music 2 args_list_formats_only st0 = 0 \<and>
   subprocess_run env_no_ffmpeg (spawned st0) [''ffmpeg'', ''-version'']
     = Raised (Exn FileNotFoundError ''[Errno 2] No such file or directory: ffmpeg'') \<and>
   exit_status env_no_ffmpeg 2 args_list_formats_only st0 = 1"
  using main_help_and_list_formats_exit [of 1 env_no_ffmpeg args_list_formats_only st0]
    main_help_and_list_formats_exit [of 2 env_music args_list_formats_only st0 0 "[]" "[]"]
    main_help_and_list_formats_exit [of 2 env_no_ffmpeg args_list_formats_only st0 _ _ _ "''[Errno 2] No such file or directory: ffmpeg''"]
  by (simp add: env_music_def env_no_ffmpeg_def args_list_formats_only_def)

end
